theory Spec2Isabelle
  imports Main
begin

section \<open>fakesnow: the patch scope and the server scope\<close>

text \<open>
  The module \<^verbatim>\<open>fakesnow/__init__.py\<close> defines two context managers.
  \<^verbatim>\<open>patch\<close> replaces module variables that hold the snowflake connector's entry
  points by \<^verbatim>\<open>MagicMock\<close> objects calling the fakes, and puts the originals back when
  the scope is left. \<^verbatim>\<open>server\<close> runs the fake server on a background thread, waits
  until it has started, yields the connection parameters and, when the scope is left,
  asks the server to exit and joins the thread.

  A generator under \<^verbatim>\<open>@contextmanager\<close> is entered by running it up to its
  \<^verbatim>\<open>yield\<close> and left by resuming it after the \<^verbatim>\<open>yield\<close>. Each manager is
  therefore modelled by two functions over an explicit state: \<open>_enter\<close>, the code before
  the \<^verbatim>\<open>yield\<close>, which returns either the exception that escapes or what is
  yielded, and \<open>_exit\<close>, the \<^verbatim>\<open>finally\<close> block.
\<close>

subsection \<open>Python values and exceptions\<close>

text \<open>
  The values a module variable can hold, as far as \<^verbatim>\<open>patch\<close> tells them apart:
  truthiness (\<^verbatim>\<open>assert fn\<close>), being a \<^verbatim>\<open>MagicMock\<close> (\<^verbatim>\<open>isinstance\<close>),
  hashability and equality (\<^verbatim>\<open>fake_fns.get(fn)\<close>). A function object is identified by
  a number, so equality of \<open>PyFunc\<close> values is identity. Every \<^verbatim>\<open>MagicMock\<close> carries
  the number it was created with and its \<^verbatim>\<open>side_effect\<close>. \<open>PyFsConnect i\<close> is the
  bound method \<^verbatim>\<open>fs.connect\<close> of the \<^verbatim>\<open>FakeSnow\<close> instance \<open>i\<close>,
  \<open>PyFakesWritePandas\<close> is the function \<^verbatim>\<open>fakesnow.fakes.write_pandas\<close>, and
  \<open>PyModule name\<close> is the module object loaded under \<open>name\<close>.
\<close>

datatype pyval =
    PyNone
  | PyStr string
  | PyList "pyval list"
  | PyFunc nat
  | PyFsConnect nat
  | PyFakesWritePandas
  | PyMagicMock nat pyval
  | PyModule string

fun truthy :: "pyval \<Rightarrow> bool" where
  "truthy PyNone = False"
| "truthy (PyStr s) = (s \<noteq> [])"
| "truthy (PyList vs) = (vs \<noteq> [])"
| "truthy (PyFunc i) = True"
| "truthy (PyFsConnect i) = True"
| "truthy PyFakesWritePandas = True"
| "truthy (PyMagicMock i f) = True"
| "truthy (PyModule name) = True"

fun is_MagicMock :: "pyval \<Rightarrow> bool" where
  "is_MagicMock (PyMagicMock i f) = True"
| "is_MagicMock v = False"

fun hashable :: "pyval \<Rightarrow> bool" where
  "hashable (PyList vs) = False"
| "hashable v = True"

datatype assertion =
    AlreadyPatched
  | NoModuleVar string
  | NotOneOf string pyval
  | PortIsFalsy

datatype error =
    AssertionError assertion
  | AttributeError
  | TypeError
  | ValueError
  | ModuleNotFoundError string
  | ImportError string
  | OSError
  | RuntimeError string

subsection \<open>The interpreter state seen by \<^verbatim>\<open>patch\<close>\<close>

text \<open>
  \<open>modules\<close> is \<^verbatim>\<open>sys.modules\<close>: each loaded module's name with its
  \<^verbatim>\<open>__dict__\<close>. A module object is known by the name it is loaded under:
  distinct names stand for distinct module objects, \<^verbatim>\<open>sys.modules\<close> keeps the
  object it holds under a name, and the attribute path \<^verbatim>\<open>snowflake.connector\<close>
  that the source reads through its own imports is the entry of \<^verbatim>\<open>sys.modules\<close>
  under that name.
  \<open>importer\<close> is what executing the code of a module that is not loaded yet
  computes for its \<^verbatim>\<open>__dict__\<close>, from the modules loaded at that moment, or the
  exception it raises.
  \<open>engines\<close> holds the \<^verbatim>\<open>FakeSnow\<close> instances created so far, with the arguments
  they were given and whether their \<^verbatim>\<open>duck_conn\<close> is still open.
\<close>

type_synonym moddict = "string \<rightharpoonup> pyval"

record fs_args =
  create_database_on_connect :: bool
  create_schema_on_connect :: bool
  db_path :: "string option"
  nop_regexes :: "string list option"

record engine =
  e_args :: fs_args
  e_open :: bool

record env =
  modules :: "string \<rightharpoonup> moddict"
  importer :: "string \<Rightarrow> (string \<rightharpoonup> moddict) \<Rightarrow> error + moddict"
  next_id :: nat
  engines :: "nat \<rightharpoonup> engine"

definition getvar :: "env \<Rightarrow> string \<Rightarrow> string \<Rightarrow> pyval option" where
  "getvar e m n = (case modules e m of None \<Rightarrow> None | Some d \<Rightarrow> d n)"

text \<open>\<^verbatim>\<open>setattr(module, n, v)\<close> on a module that is still loaded.\<close>

definition setvar :: "string \<Rightarrow> string \<Rightarrow> pyval \<Rightarrow> env \<Rightarrow> env" where
  "setvar m n v e =
     (case modules e m of
        None \<Rightarrow> e
      | Some d \<Rightarrow> e\<lparr>modules := (modules e)(m \<mapsto> d(n \<mapsto> v))\<rparr>)"

text \<open>\<^verbatim>\<open>delattr(module, n)\<close> on a module that is still loaded.\<close>

definition delvar :: "string \<Rightarrow> string \<Rightarrow> env \<Rightarrow> env" where
  "delvar m n e =
     (case modules e m of
        None \<Rightarrow> e
      | Some d \<Rightarrow> e\<lparr>modules := (modules e)(m \<mapsto> d(n := None))\<rparr>)"

text \<open>\<^verbatim>\<open>FakeSnow(...)\<close>: a new instance with an open connection.\<close>

definition new_FakeSnow :: "fs_args \<Rightarrow> env \<Rightarrow> nat \<times> env" where
  "new_FakeSnow a e =
     (next_id e,
      e\<lparr>next_id := Suc (next_id e),
        engines := (engines e)(next_id e \<mapsto> \<lparr>e_args = a, e_open = True\<rparr>)\<rparr>)"


subsection \<open>Splitting a target name\<close>

text \<open>\<^verbatim>\<open>im.split(".")\<close> and \<^verbatim>\<open>".".join(parts)\<close>.\<close>

fun split_dot :: "string \<Rightarrow> string list" where
  "split_dot [] = [[]]"
| "split_dot (c # cs) =
     (if c = CHR ''.'' then [] # split_dot cs
      else (case split_dot cs of
              w # ws \<Rightarrow> (c # w) # ws
            | [] \<Rightarrow> [[c]]))"

fun join_dot :: "string list \<Rightarrow> string" where
  "join_dot [] = []"
| "join_dot [w] = w"
| "join_dot (w # v # ws) = w @ ''.'' @ join_dot (v # ws)"

definition module_name_of :: "string \<Rightarrow> string" where
  "module_name_of im = join_dot (butlast (split_dot im))"

definition fn_name_of :: "string \<Rightarrow> string" where
  "fn_name_of im = last (split_dot im)"

subsection \<open>Resolving and patching one target\<close>

text \<open>
  The names of the packages above a module and of the module itself, from the top:
  \<^verbatim>\<open>a\<close>, \<^verbatim>\<open>a.b\<close>, \<^verbatim>\<open>a.b.c\<close> for \<^verbatim>\<open>a.b.c\<close>.
\<close>

fun extend_prefixes :: "string \<Rightarrow> string list \<Rightarrow> string list" where
  "extend_prefixes p [] = []"
| "extend_prefixes p (c # cs) = (p @ ''.'' @ c) # extend_prefixes (p @ ''.'' @ c) cs"

definition package_chain :: "string \<Rightarrow> string list" where
  "package_chain name =
     (case split_dot name of
        [] \<Rightarrow> []
      | c # cs \<Rightarrow> c # extend_prefixes c cs)"

definition top_package :: "string \<Rightarrow> string" where
  "top_package name = (case split_dot name of [] \<Rightarrow> [] | c # cs \<Rightarrow> c)"

text \<open>
  A module that has just been loaded is bound, under the last component of its name, in
  its parent package. The model binds it when the parent has no variable of that name;
  Python also rebinds a variable that exists.
\<close>

definition bind_in_parent :: "string \<Rightarrow> env \<Rightarrow> env" where
  "bind_in_parent name e =
     (if butlast (split_dot name) = [] then e
      else (case getvar e (module_name_of name) (fn_name_of name) of
              Some v \<Rightarrow> e
            | None \<Rightarrow> setvar (module_name_of name) (fn_name_of name) (PyModule name) e))"

text \<open>
  Loading one module that is not loaded: its code runs and, if it does not raise, the
  module is entered in \<^verbatim>\<open>sys.modules\<close> and bound in its parent.
\<close>

definition load_module :: "string \<Rightarrow> env \<Rightarrow> (error + moddict) \<times> env" where
  "load_module name e =
     (case importer e name (modules e) of
        Inl err \<Rightarrow> (Inl err, e)
      | Inr d \<Rightarrow> (Inr d, bind_in_parent name (e\<lparr>modules := (modules e)(name \<mapsto> d)\<rparr>)))"

text \<open>
  The import of a chain of names, from the top: a name that is loaded is passed, one that
  is not is loaded, and the first failure ends the import with what was loaded before it
  still loaded.
\<close>

fun import_chain :: "string list \<Rightarrow> env \<Rightarrow> error option \<times> env" where
  "import_chain [] e = (None, e)"
| "import_chain (p # ps) e =
     (case modules e p of
        Some d \<Rightarrow> import_chain ps e
      | None \<Rightarrow>
          (case load_module p e of
             (Inl err, e1) \<Rightarrow> (Some err, e1)
           | (Inr d, e1) \<Rightarrow> import_chain ps e1))"

text \<open>
  \<^verbatim>\<open>importlib.import_module(name)\<close> for a module that is not loaded. The empty name
  is refused; otherwise the packages above the module and then the module are imported,
  and the result is the module that \<^verbatim>\<open>sys.modules\<close> then holds under the name.
\<close>

definition import_module :: "string \<Rightarrow> env \<Rightarrow> (error + moddict) \<times> env" where
  "import_module name e =
     (if name = [] then (Inl ValueError, e)
      else (case import_chain (package_chain name) e of
              (Some err, e1) \<Rightarrow> (Inl err, e1)
            | (None, e1) \<Rightarrow>
                (case modules e1 name of
                   None \<Rightarrow> (Inl (ModuleNotFoundError name), e1)
                 | Some d \<Rightarrow> (Inr d, e1))))"

text \<open>\<^verbatim>\<open>sys.modules.get(module_name) or importlib.import_module(module_name)\<close>.\<close>

definition get_module :: "string \<Rightarrow> env \<Rightarrow> (error + moddict) \<times> env" where
  "get_module name e =
     (case modules e name of
        Some d \<Rightarrow> (Inr d, e)
      | None \<Rightarrow> import_module name e)"

text \<open>
  An entry of the \<^verbatim>\<open>ExitStack\<close>: the patcher of one target, which remembers the
  module, the attribute and the original value.
\<close>

record undo =
  u_module :: string
  u_name :: string
  u_original :: pyval

text \<open>
  \<^verbatim>\<open>stack.enter_context(mock.patch(im, side_effect=fake))\<close>. The patcher resolves
  the dotted path of the module once more, from the top: it imports the first component,
  which raises if that package is neither loaded nor importable; the rest of the path is
  taken to lead to the module that \<^verbatim>\<open>sys.modules\<close> holds under the full name. It
  then reads the attribute's current value, stores a new \<^verbatim>\<open>MagicMock\<close> in its
  place and is pushed on the stack (the head of the list is the entry pushed last).
\<close>

definition mock_patch_enter ::
  "string \<Rightarrow> string \<Rightarrow> pyval \<Rightarrow> undo list \<Rightarrow> env \<Rightarrow> (error + undo list) \<times> env" where
  "mock_patch_enter m n fake stack e =
     (case get_module (top_package m) e of
        (Inl err, e1) \<Rightarrow> (Inl err, e1)
      | (Inr package, e1) \<Rightarrow>
          (case getvar e1 m n of
             None \<Rightarrow> (Inl AttributeError, e1)
           | Some original \<Rightarrow>
               (Inr (\<lparr>u_module = m, u_name = n, u_original = original\<rparr> # stack),
                setvar m n (PyMagicMock (next_id e1) fake)
                  (e1\<lparr>next_id := Suc (next_id e1)\<rparr>))))"

text \<open>The body of the \<^verbatim>\<open>for\<close> loop, lines 71 to 87.\<close>

definition patch_target ::
  "(pyval \<rightharpoonup> pyval) \<Rightarrow> string \<Rightarrow> undo list \<Rightarrow> env \<Rightarrow> (error + undo list) \<times> env" where
  "patch_target fake_fns im stack e =
     (case get_module (module_name_of im) e of
        (Inl err, e1) \<Rightarrow> (Inl err, e1)
      | (Inr module, e1) \<Rightarrow>
          (case module (fn_name_of im) of
             None \<Rightarrow> (Inl (AssertionError (NoModuleVar im)), e1)
           | Some fn \<Rightarrow>
               if \<not> truthy fn then (Inl (AssertionError (NoModuleVar im)), e1)
               else if is_MagicMock fn then (Inr stack, e1)
               else if \<not> hashable fn then (Inl TypeError, e1)
               else (case fake_fns fn of
                       None \<Rightarrow> (Inl (AssertionError (NotOneOf im fn)), e1)
                     | Some fake \<Rightarrow>
                         mock_patch_enter (module_name_of im) (fn_name_of im) fake stack e1)))"

text \<open>The \<^verbatim>\<open>for\<close> loop: an exception leaves the loop with the state as it is.\<close>

fun patch_loop ::
  "(pyval \<rightharpoonup> pyval) \<Rightarrow> string list \<Rightarrow> undo list \<Rightarrow> env \<Rightarrow> (error + undo list) \<times> env" where
  "patch_loop fake_fns [] stack e = (Inr stack, e)"
| "patch_loop fake_fns (im # ims) stack e =
     (case patch_target fake_fns im stack e of
        (Inl err, e1) \<Rightarrow> (Inl err, e1)
      | (Inr stack1, e1) \<Rightarrow> patch_loop fake_fns ims stack1 e1)"

subsection \<open>The patch scope\<close>

text \<open>The argument \<^verbatim>\<open>extra_targets: str | Sequence[str]\<close>.\<close>

datatype targets = Single string | Many "string list"

fun targets_list :: "targets \<Rightarrow> string list" where
  "targets_list (Single s) = [s]"
| "targets_list (Many ss) = ss"

definition std_targets :: "string list" where
  "std_targets =
     [''snowflake.connector.connect'', ''snowflake.connector.pandas_tools.write_pandas'']"

record session =
  s_stack :: "undo list"
  s_fs :: nat

text \<open>
  Lines 52 to 87: the guard against re-patching, the \<^verbatim>\<open>FakeSnow\<close> instance, the
  dictionary \<^verbatim>\<open>fake_fns\<close> (its keys are hashed in the order written, an unhashable
  key raises, and a later key overwrites an equal earlier one) and the loop over the
  standard targets followed by the extra ones. The loop stands before the \<^verbatim>\<open>try\<close>, so an exception of the loop leaves the generator
  without running the \<^verbatim>\<open>finally\<close> block.
\<close>

definition patch_enter :: "targets \<Rightarrow> fs_args \<Rightarrow> env \<Rightarrow> (error + session) \<times> env" where
  "patch_enter extra_targets args e =
     (case getvar e ''snowflake.connector'' ''connect'' of
        None \<Rightarrow> (Inl AttributeError, e)
      | Some c0 \<Rightarrow>
          if is_MagicMock c0 then (Inl (AssertionError AlreadyPatched), e)
          else
            (case new_FakeSnow args e of
               (fs, e1) \<Rightarrow>
                 (case getvar e1 ''snowflake.connector'' ''connect'' of
                    None \<Rightarrow> (Inl AttributeError, e1)
                  | Some c \<Rightarrow>
                      (case getvar e1 ''snowflake.connector.pandas_tools'' ''write_pandas'' of
                         None \<Rightarrow> (Inl AttributeError, e1)
                       | Some wp \<Rightarrow>
                           if \<not> hashable c then (Inl TypeError, e1)
                           else if \<not> hashable wp then (Inl TypeError, e1)
                           else
                             (case patch_loop
                                     [c \<mapsto> PyFsConnect fs, wp \<mapsto> PyFakesWritePandas]
                                     (std_targets @ targets_list extra_targets) [] e1 of
                                (Inl err, e2) \<Rightarrow> (Inl err, e2)
                              | (Inr stack, e2) \<Rightarrow>
                                  (Inr \<lparr>s_stack = stack, s_fs = fs\<rparr>, e2))))))"

text \<open>
  \<^verbatim>\<open>stack.close()\<close>: the patchers leave in the reverse of the order they entered,
  each putting its original value back into the module object it patched. The model
  finds that object under its name, so it follows Python as long as
  \<^verbatim>\<open>sys.modules\<close> still holds the patched object under that name.
\<close>

definition mock_patch_exit :: "undo \<Rightarrow> env \<Rightarrow> env" where
  "mock_patch_exit u e = setvar (u_module u) (u_name u) (u_original u) e"

fun stack_close :: "undo list \<Rightarrow> env \<Rightarrow> env" where
  "stack_close [] e = e"
| "stack_close (u # us) e = stack_close us (mock_patch_exit u e)"





subsection \<open>The state seen by \<^verbatim>\<open>server\<close>\<close>

text \<open>
  The calling thread sees the background thread only through what it reads:
  \<^verbatim>\<open>thread.is_alive()\<close>, \<^verbatim>\<open>server.started\<close> and the return of
  \<^verbatim>\<open>thread.join()\<close>. The state gives the answer of each read as a function of the
  moment it is made: \<open>clock\<close> counts the reads and sleeps of the calling thread, and
  \<open>thread_alive t\<close> and \<open>server_started t\<close> are what a read at moment \<open>t\<close>
  returns in this run. \<open>os_port\<close> is what the operating system answers when a socket
  is bound to port 0 of the loopback address and asked for its name: the port it
  assigned, or an error. \<open>trace\<close> lists what the calling thread did, in order.
\<close>

datatype event =
    SocketOpen
  | SocketBind string int
  | SocketGetsockname int
  | SocketClose
  | ThreadStart int
  | SetShouldExit
  | ThreadJoined

record world =
  clock :: nat
  thread_alive :: "nat \<Rightarrow> bool"
  server_started :: "nat \<Rightarrow> bool"
  os_port :: "error + int"
  should_exit :: bool
  trace :: "event list"

definition tick :: "world \<Rightarrow> world" where
  "tick w = w\<lparr>clock := Suc (clock w)\<rparr>"

definition emit :: "event list \<Rightarrow> world \<Rightarrow> world" where
  "emit evs w = w\<lparr>trace := trace w @ evs\<rparr>"

text \<open>The values of a session parameter: \<^verbatim>\<open>str | int | bool\<close>.\<close>

datatype pvalue = PVStr string | PVInt int | PVBool bool

record conn_params =
  cp_user :: string
  cp_password :: string
  cp_account :: string
  cp_host :: string
  cp_port :: int
  cp_protocol :: string
  cp_session_parameters :: "string \<rightharpoonup> pvalue"
  cp_network_timeout :: int

subsection \<open>The server scope\<close>

text \<open>
  Lines 116 to 118: the socket is opened, bound to port 0 of \<^verbatim>\<open>127.0.0.1\<close>, asked
  for its port and closed by \<^verbatim>\<open>contextlib.closing\<close>, also when binding raises.
\<close>

definition find_port :: "world \<Rightarrow> (error + int) \<times> world" where
  "find_port w =
     (case os_port w of
        Inl err \<Rightarrow>
          (Inl err, emit [SocketOpen, SocketBind ''127.0.0.1'' 0, SocketClose] w)
      | Inr p \<Rightarrow>
          (Inr p,
           emit [SocketOpen, SocketBind ''127.0.0.1'' 0, SocketGetsockname p, SocketClose] w))"

text \<open>\<^verbatim>\<open>if not port:\<close> holds for \<^verbatim>\<open>None\<close> and for 0.\<close>

definition choose_port :: "int option \<Rightarrow> world \<Rightarrow> (error + int) \<times> world" where
  "choose_port port w =
     (case port of
        None \<Rightarrow> find_port w
      | Some p \<Rightarrow> if p = 0 then find_port w else (Inr p, w))"

text \<open>
  Lines 125 and 126. Each pass reads \<^verbatim>\<open>thread.is_alive()\<close>, then, only if the
  thread is alive, \<^verbatim>\<open>server.started\<close>, and sleeps if the server has not started.
  The loop has no bound: where it never ends the result is \<open>None\<close>.
\<close>

partial_function (option) wait_started :: "world \<Rightarrow> world option" where
  "wait_started w =
     (if thread_alive w (clock w) then
        (if \<not> server_started w (Suc (clock w)) then wait_started (tick (tick (tick w)))
         else Some (tick (tick w)))
      else Some (tick w))"

text \<open>
  \<^verbatim>\<open>dict(...)\<close> of lines 132 to 143. \<^verbatim>\<open>session_parameters or {}\<close> is the empty
  dictionary for \<^verbatim>\<open>None\<close> and the caller's dictionary otherwise (an empty one is
  replaced by an empty one); in \<^verbatim>\<open>a | b\<close> the entries of \<^verbatim>\<open>b\<close> win.
\<close>

definition default_session_parameters :: "string \<rightharpoonup> pvalue" where
  "default_session_parameters = [''CLIENT_OUT_OF_BAND_TELEMETRY_ENABLED'' \<mapsto> PVBool False]"

definition connection_parameters :: "int \<Rightarrow> (string \<rightharpoonup> pvalue) option \<Rightarrow> conn_params" where
  "connection_parameters port session_parameters =
     \<lparr>cp_user = ''fake'',
      cp_password = ''snow'',
      cp_account = ''fakesnow'',
      cp_host = ''localhost'',
      cp_port = port,
      cp_protocol = ''http'',
      cp_session_parameters =
        default_session_parameters ++
          (case session_parameters of None \<Rightarrow> Map.empty | Some sp \<Rightarrow> sp),
      cp_network_timeout = 1\<rparr>"

text \<open>
  Lines 115 to 143, up to the \<^verbatim>\<open>yield\<close>: the port, \<^verbatim>\<open>assert port\<close>, the start
  of the thread, the wait, and the last read of \<^verbatim>\<open>server.started\<close>.
\<close>

definition server_enter ::
  "int option \<Rightarrow> (string \<rightharpoonup> pvalue) option \<Rightarrow> world \<Rightarrow> ((error + conn_params) \<times> world) option" where
  "server_enter port session_parameters w =
     (case choose_port port w of
        (Inl err, w1) \<Rightarrow> Some (Inl err, w1)
      | (Inr p, w1) \<Rightarrow>
          if p = 0 then Some (Inl (AssertionError PortIsFalsy), w1)
          else
            (case wait_started (emit [ThreadStart p] w1) of
               None \<Rightarrow> None
             | Some w2 \<Rightarrow>
                 if \<not> server_started w2 (clock w2)
                 then Some (Inl (RuntimeError ''Failed to start server''), tick w2)
                 else Some (Inr (connection_parameters p session_parameters), tick w2)))"

text \<open>
  \<^verbatim>\<open>thread.join()\<close> has no timeout: it returns at the first moment the thread is
  found dead, and never if there is none.
\<close>

partial_function (option) thread_join :: "world \<Rightarrow> world option" where
  "thread_join w =
     (if thread_alive w (clock w) then thread_join (tick w)
      else Some (emit [ThreadJoined] w))"

text \<open>
  The \<^verbatim>\<open>finally\<close> block, lines 145 to 147. It runs whether the caller's block
  returned (\<open>None\<close>) or raised (\<open>Some err\<close>), and the exception, if any, goes on
  to the caller afterwards.
\<close>

definition server_exit :: "error option \<Rightarrow> world \<Rightarrow> (error option \<times> world) option" where
  "server_exit outcome w =
     (case thread_join (emit [SetShouldExit] (w\<lparr>should_exit := True\<rparr>)) of
        None \<Rightarrow> None
      | Some w1 \<Rightarrow> Some (outcome, w1))"

subsection \<open>The invariant of the patch loop\<close>



subsection \<open>An example process\<close>

text \<open>
  An interpreter with the connector loaded, a module \<^verbatim>\<open>jobs\<close> that was loaded
  earlier and holds \<^verbatim>\<open>connect\<close> under the name \<^verbatim>\<open>sf_connect\<close> beside a string
  and a list, and a module \<^verbatim>\<open>app\<close> that is not loaded yet and whose code is
  \<^verbatim>\<open>from snowflake.connector import connect\<close>. \<open>example_session\<close> is the session
  that patching \<^verbatim>\<open>jobs.sf_connect\<close> and \<^verbatim>\<open>app.connect\<close> opens there,
  \<open>example_fake_fns\<close> its dictionary of fakes, and \<open>example_patched_env\<close> an
  interpreter whose \<^verbatim>\<open>connect\<close> is patched already.
\<close>

definition example_importer :: "string \<Rightarrow> (string \<rightharpoonup> moddict) \<Rightarrow> error + moddict" where
  "example_importer name mods =
     (if name = ''app'' then
        (case mods ''snowflake.connector'' of
           None \<Rightarrow> Inl (ImportError ''app'')
         | Some d \<Rightarrow>
             (case d ''connect'' of
                None \<Rightarrow> Inl (ImportError ''app'')
              | Some v \<Rightarrow> Inr [''connect'' \<mapsto> v]))
      else Inl (ModuleNotFoundError name))"

definition example_env :: env where
  "example_env =
     \<lparr>modules =
        [''snowflake'' \<mapsto> [''connector'' \<mapsto> PyModule ''snowflake.connector''],
         ''snowflake.connector'' \<mapsto>
           [''connect'' \<mapsto> PyFunc 1, ''Connect'' \<mapsto> PyFunc 1,
            ''pandas_tools'' \<mapsto> PyModule ''snowflake.connector.pandas_tools''],
         ''snowflake.connector.pandas_tools'' \<mapsto> [''write_pandas'' \<mapsto> PyFunc 2],
         ''jobs'' \<mapsto>
           [''sf_connect'' \<mapsto> PyFunc 1, ''retries'' \<mapsto> PyStr ''3'',
            ''hosts'' \<mapsto> PyList [PyStr ''localhost'']]],
      importer = example_importer,
      next_id = 10,
      engines = Map.empty\<rparr>"

definition example_args :: fs_args where
  "example_args =
     \<lparr>create_database_on_connect = True, create_schema_on_connect = True,
      db_path = None, nop_regexes = None\<rparr>"

definition example_session :: session where
  "example_session =
     \<lparr>s_stack =
        [\<lparr>u_module = ''jobs'', u_name = ''sf_connect'', u_original = PyFunc 1\<rparr>,
         \<lparr>u_module = ''snowflake.connector.pandas_tools'', u_name = ''write_pandas'',
            u_original = PyFunc 2\<rparr>,
         \<lparr>u_module = ''snowflake.connector'', u_name = ''connect'', u_original = PyFunc 1\<rparr>],
      s_fs = 10\<rparr>"

definition example_fake_fns :: "pyval \<rightharpoonup> pyval" where
  "example_fake_fns = [PyFunc 1 \<mapsto> PyFsConnect 10, PyFunc 2 \<mapsto> PyFakesWritePandas]"

definition example_patched_env :: env where
  "example_patched_env =
     \<lparr>modules =
        [''snowflake'' \<mapsto> [''connector'' \<mapsto> PyModule ''snowflake.connector''],
         ''snowflake.connector'' \<mapsto>
           [''connect'' \<mapsto> PyMagicMock 11 (PyFsConnect 10), ''Connect'' \<mapsto> PyFunc 1,
            ''pandas_tools'' \<mapsto> PyModule ''snowflake.connector.pandas_tools''],
         ''snowflake.connector.pandas_tools'' \<mapsto> [''write_pandas'' \<mapsto> PyFunc 2]],
      importer = example_importer,
      next_id = 12,
      engines = Map.empty\<rparr>"


text \<open>
  Three more interpreters, for the import system and the patcher. In the first the
  package \<^verbatim>\<open>pkgx\<close> is loaded and its submodule \<^verbatim>\<open>pkgx.sub\<close> can be
  imported, and the package \<^verbatim>\<open>pkgy\<close> can be imported while the code of
  \<^verbatim>\<open>pkgy.bad\<close> raises. In the second \<^verbatim>\<open>sys.modules\<close> holds a module under
  the name \<^verbatim>\<open>stubpkg.db\<close> although no package \<^verbatim>\<open>stubpkg\<close> is loaded or can
  be imported.
\<close>

definition example_pkg_importer :: "string \<Rightarrow> (string \<rightharpoonup> moddict) \<Rightarrow> error + moddict" where
  "example_pkg_importer name mods =
     (if name = ''pkgx.sub'' then Inr [''f'' \<mapsto> PyFunc 7]
      else if name = ''pkgy'' then Inr Map.empty
      else if name = ''pkgy.bad'' then Inl (ImportError ''pkgy.bad'')
      else Inl (ModuleNotFoundError name))"

definition example_pkg_env :: env where
  "example_pkg_env =
     \<lparr>modules = [''pkgx'' \<mapsto> [''version'' \<mapsto> PyStr ''1'']],
      importer = example_pkg_importer,
      next_id = 0,
      engines = Map.empty\<rparr>"

definition example_stub_env :: env where
  "example_stub_env =
     \<lparr>modules =
        [''snowflake'' \<mapsto> [''connector'' \<mapsto> PyModule ''snowflake.connector''],
         ''snowflake.connector'' \<mapsto>
           [''connect'' \<mapsto> PyFunc 1,
            ''pandas_tools'' \<mapsto> PyModule ''snowflake.connector.pandas_tools''],
         ''snowflake.connector.pandas_tools'' \<mapsto> [''write_pandas'' \<mapsto> PyFunc 2],
         ''stubpkg.db'' \<mapsto> [''connect'' \<mapsto> PyFunc 1]],
      importer = (\<lambda>name mods. Inl (ModuleNotFoundError name)),
      next_id = 10,
      engines = Map.empty\<rparr>"

text \<open>
  A run in which the server is seen started at moment 4 and the thread is dead from
  moment 9 on: the state before \<^verbatim>\<open>server()\<close> is called, at the \<^verbatim>\<open>yield\<close>, and
  after the exit; a run in which the thread ignores the request to exit and never dies;
  a run in which the thread dies at moment 5 and the server never starts; and a run in
  which the operating system assigns port 80 to the throwaway socket.
\<close>

definition example_world :: world where
  "example_world =
     \<lparr>clock = 0, thread_alive = (\<lambda>t. t < 9), server_started = (\<lambda>t. 4 \<le> t),
      os_port = Inr 49152, should_exit = False, trace = []\<rparr>"

definition example_ready_world :: world where
  "example_ready_world =
     \<lparr>clock = 6, thread_alive = (\<lambda>t. t < 9), server_started = (\<lambda>t. 4 \<le> t),
      os_port = Inr 49152, should_exit = False,
      trace = [SocketOpen, SocketBind ''127.0.0.1'' 0, SocketGetsockname 49152, SocketClose,
               ThreadStart 49152]\<rparr>"

definition example_stopped_world :: world where
  "example_stopped_world =
     \<lparr>clock = 9, thread_alive = (\<lambda>t. t < 9), server_started = (\<lambda>t. 4 \<le> t),
      os_port = Inr 49152, should_exit = True,
      trace = [SocketOpen, SocketBind ''127.0.0.1'' 0, SocketGetsockname 49152, SocketClose,
               ThreadStart 49152, SetShouldExit, ThreadJoined]\<rparr>"

definition example_hung_world :: world where
  "example_hung_world =
     \<lparr>clock = 6, thread_alive = (\<lambda>t. True), server_started = (\<lambda>t. 4 \<le> t),
      os_port = Inr 49152, should_exit = False,
      trace = [SocketOpen, SocketBind ''127.0.0.1'' 0, SocketGetsockname 49152, SocketClose,
               ThreadStart 49152]\<rparr>"

definition example_failing_world :: world where
  "example_failing_world =
     \<lparr>clock = 0, thread_alive = (\<lambda>t. t < 5), server_started = (\<lambda>t. False),
      os_port = Inr 49152, should_exit = False, trace = []\<rparr>"



definition example_session_parameters :: "string \<rightharpoonup> pvalue" where
  "example_session_parameters =
     [''CLIENT_OUT_OF_BAND_TELEMETRY_ENABLED'' \<mapsto> PVBool True, ''QUERY_TAG'' \<mapsto> PVStr ''t'']"

section \<open>Properties of the patch scope\<close>

lemma split_dot_nonempty: "split_dot s \<noteq> []"
  by (induction s) (auto split: list.splits)

lemma getvar_setvar:
  "getvar (setvar m n v e) m' n' =
     (if m' = m \<and> n' = n \<and> modules e m \<noteq> None then Some v else getvar e m' n')"
  by (auto simp: getvar_def setvar_def split: option.splits)

lemma getvar_delvar:
  "getvar (delvar m n e) m' n' =
     (if m' = m \<and> n' = n \<and> modules e m \<noteq> None then None else getvar e m' n')"
  by (auto simp: getvar_def delvar_def split: option.splits)

lemma dom_modules_setvar: "dom (modules (setvar m n v e)) = dom (modules e)"
  by (auto simp: setvar_def split: option.splits)


lemma getvar_loaded: "getvar e m n = Some v \<Longrightarrow> modules e m \<noteq> None"
  by (auto simp: getvar_def split: option.splits)

subsection \<open>What an import leaves as it was\<close>

text \<open>
  An import changes no variable that has a value and unloads no module. It can load
  several modules and bind submodules in packages that were loaded before.
\<close>

lemma bind_in_parent_getvar:
  "getvar e m n = Some v \<Longrightarrow> getvar (bind_in_parent name e) m n = Some v"
  by (auto simp: bind_in_parent_def getvar_setvar split: option.splits)

lemma bind_in_parent_dom: "dom (modules (bind_in_parent name e)) = dom (modules e)"
  by (auto simp: bind_in_parent_def dom_modules_setvar split: option.splits)

lemma load_module_getvar:
  assumes "load_module name e = (r, e1)" "modules e name = None" "getvar e m n = Some v"
  shows "getvar e1 m n = Some v"
proof (cases "importer e name (modules e)")
  case (Inl err)
  with assms show ?thesis by (simp add: load_module_def)
next
  case (Inr d)
  let ?e = "e\<lparr>modules := (modules e)(name \<mapsto> d)\<rparr>"
  have "m \<noteq> name" using assms(2,3) by (auto simp: getvar_def)
  then have "getvar ?e m n = Some v" using assms(3) by (simp add: getvar_def)
  then have "getvar (bind_in_parent name ?e) m n = Some v" by (rule bind_in_parent_getvar)
  with assms(1) Inr show ?thesis by (simp add: load_module_def)
qed

lemma load_module_loaded:
  assumes "load_module name e = (r, e1)" "modules e m \<noteq> None"
  shows "modules e1 m \<noteq> None"
proof (cases "importer e name (modules e)")
  case (Inl err)
  with assms show ?thesis by (simp add: load_module_def)
next
  case (Inr d)
  let ?e = "e\<lparr>modules := (modules e)(name \<mapsto> d)\<rparr>"
  have "m \<in> dom (modules ?e)" using assms(2) by auto
  then have "m \<in> dom (modules (bind_in_parent name ?e))" by (simp only: bind_in_parent_dom)
  with assms(1) Inr show ?thesis by (auto simp: load_module_def)
qed

lemma import_chain_getvar:
  assumes "import_chain ps e = (r, e1)" "getvar e m n = Some v"
  shows "getvar e1 m n = Some v"
  using assms
proof (induction ps arbitrary: e)
  case Nil
  then show ?case by simp
next
  case (Cons p ps)
  show ?case
  proof (cases "modules e p")
    case (Some d)
    with Cons.prems(1) have "import_chain ps e = (r, e1)" by simp
    then show ?thesis using Cons.prems(2) by (rule Cons.IH)
  next
    case None
    obtain r2 e2 where lm: "load_module p e = (r2, e2)" by (cases "load_module p e")
    have g2: "getvar e2 m n = Some v" using lm None Cons.prems(2) by (rule load_module_getvar)
    show ?thesis
    proof (cases r2)
      case (Inl err)
      with Cons.prems(1) None lm have "e1 = e2" by simp
      with g2 show ?thesis by simp
    next
      case (Inr d)
      with Cons.prems(1) None lm have "import_chain ps e2 = (r, e1)" by simp
      then show ?thesis using g2 by (rule Cons.IH)
    qed
  qed
qed

lemma import_chain_loaded:
  assumes "import_chain ps e = (r, e1)" "modules e m \<noteq> None"
  shows "modules e1 m \<noteq> None"
  using assms
proof (induction ps arbitrary: e)
  case Nil
  then show ?case by simp
next
  case (Cons p ps)
  show ?case
  proof (cases "modules e p")
    case (Some d)
    with Cons.prems(1) have "import_chain ps e = (r, e1)" by simp
    then show ?thesis using Cons.prems(2) by (rule Cons.IH)
  next
    case None
    obtain r2 e2 where lm: "load_module p e = (r2, e2)" by (cases "load_module p e")
    have g2: "modules e2 m \<noteq> None" using lm Cons.prems(2) by (rule load_module_loaded)
    show ?thesis
    proof (cases r2)
      case (Inl err)
      with Cons.prems(1) None lm have "e1 = e2" by simp
      with g2 show ?thesis by simp
    next
      case (Inr d)
      with Cons.prems(1) None lm have "import_chain ps e2 = (r, e1)" by simp
      then show ?thesis using g2 by (rule Cons.IH)
    qed
  qed
qed

lemma get_module_getvar:
  assumes "get_module name e = (r, e1)" "getvar e m n = Some v"
  shows "getvar e1 m n = Some v"
proof (cases "modules e name")
  case (Some d)
  with assms show ?thesis by (simp add: get_module_def)
next
  case None
  obtain r2 e2 where ic: "import_chain (package_chain name) e = (r2, e2)"
    by (cases "import_chain (package_chain name) e")
  have "getvar e2 m n = Some v" using ic assms(2) by (rule import_chain_getvar)
  moreover have "e1 = e \<or> e1 = e2"
    using assms(1) None ic
    by (auto simp: get_module_def import_module_def split: if_splits option.splits)
  ultimately show ?thesis using assms(2) by auto
qed

lemma get_module_loaded:
  assumes "get_module name e = (r, e1)" "modules e m \<noteq> None"
  shows "modules e1 m \<noteq> None"
proof (cases "modules e name")
  case (Some d)
  with assms show ?thesis by (simp add: get_module_def)
next
  case None
  obtain r2 e2 where ic: "import_chain (package_chain name) e = (r2, e2)"
    by (cases "import_chain (package_chain name) e")
  have "modules e2 m \<noteq> None" using ic assms(2) by (rule import_chain_loaded)
  moreover have "e1 = e \<or> e1 = e2"
    using assms(1) None ic
    by (auto simp: get_module_def import_module_def split: if_splits option.splits)
  ultimately show ?thesis using assms(2) by auto
qed

lemma get_module_result:
  assumes "get_module name e = (Inr d, e1)"
  shows "modules e1 name = Some d"
  using assms
  by (auto simp: get_module_def import_module_def
      split: option.splits if_splits prod.splits)


text \<open>
  The import system on two examples: importing a submodule binds it in its package, which
  was loaded before; and an import that fails in the submodule leaves the package, which
  it had to load first, loaded.
\<close>

lemma import_binds_submodule_in_parent:
  "fst (import_module ''pkgx.sub'' example_pkg_env) = Inr [''f'' \<mapsto> PyFunc 7] \<and>
   getvar example_pkg_env ''pkgx'' ''sub'' = None \<and>
   getvar (snd (import_module ''pkgx.sub'' example_pkg_env)) ''pkgx'' ''sub'' =
     Some (PyModule ''pkgx.sub'')"
  by (simp add: import_module_def package_chain_def load_module_def bind_in_parent_def
      module_name_of_def fn_name_of_def getvar_def setvar_def
      example_pkg_env_def example_pkg_importer_def)

lemma failed_import_leaves_parent_loaded:
  "fst (import_module ''pkgy.bad'' example_pkg_env) = Inl (ImportError ''pkgy.bad'') \<and>
   modules example_pkg_env ''pkgy'' = None \<and>
   modules (snd (import_module ''pkgy.bad'' example_pkg_env)) ''pkgy'' = Some Map.empty"
  by (simp add: import_module_def package_chain_def load_module_def bind_in_parent_def
      module_name_of_def fn_name_of_def getvar_def setvar_def
      example_pkg_env_def example_pkg_importer_def)

subsection \<open>Leaving the scope\<close>

lemma stack_close_dom: "dom (modules (stack_close us e)) = dom (modules e)"
  by (induction us arbitrary: e) (simp_all add: mock_patch_exit_def dom_modules_setvar)





subsection \<open>The loop keeps its invariant\<close>

lemma is_MagicMock_iff: "is_MagicMock v \<longleftrightarrow> (\<exists>i f. v = PyMagicMock i f)"
  by (cases v) auto

lemma patch_target_Inr_cases:
  assumes "patch_target ff im stk e = (Inr stk', e')"
  obtains (skip) d i f where
      "get_module (module_name_of im) e = (Inr d, e')"
      "d (fn_name_of im) = Some (PyMagicMock i f)" "stk' = stk"
  | (push) d fn fake e1 p e2 where
      "get_module (module_name_of im) e = (Inr d, e1)"
      "d (fn_name_of im) = Some fn" "\<not> is_MagicMock fn" "ff fn = Some fake"
      "get_module (top_package (module_name_of im)) e1 = (Inr p, e2)"
      "getvar e2 (module_name_of im) (fn_name_of im) = Some fn"
      "stk' = \<lparr>u_module = module_name_of im, u_name = fn_name_of im, u_original = fn\<rparr> # stk"
      "e' = setvar (module_name_of im) (fn_name_of im) (PyMagicMock (next_id e2) fake)
              (e2\<lparr>next_id := Suc (next_id e2)\<rparr>)"
proof -
  obtain r e1 where gm: "get_module (module_name_of im) e = (r, e1)"
    by (cases "get_module (module_name_of im) e")
  from assms gm obtain d where r: "r = Inr d"
    by (cases r) (auto simp: patch_target_def)
  from assms gm r obtain fn where fn: "d (fn_name_of im) = Some fn"
    by (cases "d (fn_name_of im)") (auto simp: patch_target_def)
  have md: "modules e1 (module_name_of im) = Some d"
    using gm r by (simp add: get_module_result)
  show thesis
  proof (cases "is_MagicMock fn")
    case True
    then obtain i f where "fn = PyMagicMock i f" by (auto simp: is_MagicMock_iff)
    with assms gm r fn show thesis
      by (intro skip[of d i f]) (auto simp: patch_target_def)
  next
    case False
    with assms gm r fn obtain fake where fk: "ff fn = Some fake"
      by (cases "ff fn") (auto simp: patch_target_def split: if_splits)
    from assms gm r fn False fk have mp:
      "mock_patch_enter (module_name_of im) (fn_name_of im) fake stk e1 = (Inr stk', e')"
      by (auto simp: patch_target_def split: if_splits)
    obtain r2 e2 where tp: "get_module (top_package (module_name_of im)) e1 = (r2, e2)"
      by (cases "get_module (top_package (module_name_of im)) e1")
    from mp tp obtain p where r2: "r2 = Inr p"
      by (cases r2) (auto simp: mock_patch_enter_def)
    have "getvar e1 (module_name_of im) (fn_name_of im) = Some fn"
      using md fn by (simp add: getvar_def)
    then have g2: "getvar e2 (module_name_of im) (fn_name_of im) = Some fn"
      using tp get_module_getvar by blast
    from mp tp r2 g2 have
      "stk' = \<lparr>u_module = module_name_of im, u_name = fn_name_of im, u_original = fn\<rparr> # stk"
      "e' = setvar (module_name_of im) (fn_name_of im) (PyMagicMock (next_id e2) fake)
              (e2\<lparr>next_id := Suc (next_id e2)\<rparr>)"
      by (auto simp: mock_patch_enter_def)
    with gm r fn False fk tp r2 g2 show thesis
      by (intro push[of d e1 fn fake p e2]) auto
  qed
qed




subsection \<open>Entering the scope\<close>

lemmas patch_eval_defs =
  patch_enter_def patch_target_def get_module_def import_module_def package_chain_def
  top_package_def load_module_def bind_in_parent_def mock_patch_enter_def
  getvar_def setvar_def new_FakeSnow_def std_targets_def module_name_of_def fn_name_of_def
  example_env_def example_args_def example_importer_def

lemma patch_enter_Inr:
  assumes "patch_enter extra args e = (Inr s, e')"
  obtains c wp e1 where
    "getvar e ''snowflake.connector'' ''connect'' = Some c" "\<not> is_MagicMock c"
    "getvar e ''snowflake.connector.pandas_tools'' ''write_pandas'' = Some wp"
    "modules e1 = modules e"
    "patch_loop [c \<mapsto> PyFsConnect (s_fs s), wp \<mapsto> PyFakesWritePandas]
       (std_targets @ targets_list extra) [] e1 = (Inr (s_stack s), e')"
proof -
  define e1 where "e1 = snd (new_FakeSnow args e)"
  have nf: "new_FakeSnow args e = (next_id e, e1)"
    by (simp add: e1_def new_FakeSnow_def)
  have m1: "modules e1 = modules e" by (simp add: e1_def new_FakeSnow_def)
  then have g1: "\<And>m n. getvar e1 m n = getvar e m n" by (simp add: getvar_def)
  from assms obtain c where c: "getvar e ''snowflake.connector'' ''connect'' = Some c"
    by (cases "getvar e ''snowflake.connector'' ''connect''") (auto simp: patch_enter_def)
  from assms c have nm: "\<not> is_MagicMock c"
    by (auto simp: patch_enter_def split: if_splits)
  from assms c nm obtain wp where
    wp: "getvar e ''snowflake.connector.pandas_tools'' ''write_pandas'' = Some wp"
    by (cases "getvar e ''snowflake.connector.pandas_tools'' ''write_pandas''")
       (auto simp: patch_enter_def nf g1)
  from assms c nm wp have
    "patch_loop [c \<mapsto> PyFsConnect (s_fs s), wp \<mapsto> PyFakesWritePandas]
       (std_targets @ targets_list extra) [] e1 = (Inr (s_stack s), e')"
    by (auto simp: patch_enter_def nf g1 split: prod.splits if_splits sum.splits)
  with c nm wp m1 show thesis by (rule that)
qed


text \<open>
  The patcher on an example: \<^verbatim>\<open>sys.modules\<close> holds \<^verbatim>\<open>stubpkg.db\<close> with the
  original \<^verbatim>\<open>connect\<close>, so lines 74 to 84 pass, but the patcher cannot import
  \<^verbatim>\<open>stubpkg\<close> and the scope is not entered.
\<close>

lemma patcher_imports_from_the_top:
  "getvar example_stub_env ''stubpkg.db'' ''connect'' = Some (PyFunc 1) \<and>
   fst (patch_enter (Single ''stubpkg.db.connect'') example_args example_stub_env) =
     Inl (ModuleNotFoundError ''stubpkg'')"
  by (simp add: patch_enter_def patch_target_def get_module_def import_module_def
      package_chain_def top_package_def load_module_def bind_in_parent_def
      mock_patch_enter_def getvar_def setvar_def new_FakeSnow_def std_targets_def
      module_name_of_def fn_name_of_def example_stub_env_def example_args_def)



lemma example_patch_enter:
  "fst (patch_enter (Many [''jobs.sf_connect'', ''app.connect'']) example_args example_env) =
     Inr example_session"
  by (simp add: patch_eval_defs example_session_def)


subsection \<open>Patched variables stay patched\<close>

lemma patch_enter_guard:
  assumes "getvar e ''snowflake.connector'' ''connect'' = Some v" "is_MagicMock v"
  shows "patch_enter extra args e = (Inl (AssertionError AlreadyPatched), e)"
  using assms by (simp add: patch_enter_def)

lemma mock_patch_enter_keeps_mock:
  assumes "mock_patch_enter m' n' fake stk e = (r, e')"
    "getvar e m n = Some (PyMagicMock i f)"
  shows "\<exists>i f. getvar e' m n = Some (PyMagicMock i f)"
proof -
  obtain r1 e1 where tp: "get_module (top_package m') e = (r1, e1)"
    by (cases "get_module (top_package m') e")
  have g1: "getvar e1 m n = Some (PyMagicMock i f)"
    using tp assms(2) by (rule get_module_getvar)
  show ?thesis
  proof (cases "e' = e1")
    case True
    with g1 show ?thesis by blast
  next
    case False
    with assms(1) tp have
      "e' = setvar m' n' (PyMagicMock (next_id e1) fake) (e1\<lparr>next_id := Suc (next_id e1)\<rparr>)"
      by (auto simp: mock_patch_enter_def split: sum.splits option.splits)
    moreover have "getvar (e1\<lparr>next_id := Suc (next_id e1)\<rparr>) m n = Some (PyMagicMock i f)"
      using g1 by (simp add: getvar_def)
    ultimately show ?thesis by (auto simp: getvar_setvar)
  qed
qed

lemma patch_target_keeps_mock:
  assumes "patch_target ff im stk e = (r, e')" "getvar e m n = Some (PyMagicMock i f)"
  shows "\<exists>i f. getvar e' m n = Some (PyMagicMock i f)"
proof -
  obtain r1 e1 where gm: "get_module (module_name_of im) e = (r1, e1)"
    by (cases "get_module (module_name_of im) e")
  have g1: "getvar e1 m n = Some (PyMagicMock i f)"
    using gm assms(2) by (rule get_module_getvar)
  show ?thesis
  proof (cases "e' = e1")
    case True
    with g1 show ?thesis by blast
  next
    case False
    with assms(1) gm obtain fake where
      "mock_patch_enter (module_name_of im) (fn_name_of im) fake stk e1 = (r, e')"
      by (auto simp: patch_target_def split: sum.splits option.splits if_splits)
    then show ?thesis using g1 by (rule mock_patch_enter_keeps_mock)
  qed
qed

lemma patch_loop_keeps_mock:
  assumes "patch_loop ff ims stk e = (r, e')" "getvar e m n = Some (PyMagicMock i f)"
  shows "\<exists>i f. getvar e' m n = Some (PyMagicMock i f)"
  using assms
proof (induction ims arbitrary: stk e i f)
  case Nil
  then show ?case by auto
next
  case (Cons im ims)
  obtain r1 e1 where pt: "patch_target ff im stk e = (r1, e1)"
    by (cases "patch_target ff im stk e")
  then obtain i1 f1 where g1: "getvar e1 m n = Some (PyMagicMock i1 f1)"
    using patch_target_keeps_mock Cons.prems(2) by blast
  show ?case
  proof (cases r1)
    case (Inl err)
    with Cons.prems(1) pt have "e' = e1" by simp
    with g1 show ?thesis by blast
  next
    case (Inr stk1)
    with Cons.prems(1) pt have "patch_loop ff ims stk1 e1 = (r, e')" by simp
    then show ?thesis using g1 by (rule Cons.IH)
  qed
qed

lemma patch_target_Inr_mock:
  assumes "patch_target ff im stk e = (Inr stk', e')"
  shows "\<exists>i f. getvar e' (module_name_of im) (fn_name_of im) = Some (PyMagicMock i f)"
  using assms
proof (cases rule: patch_target_Inr_cases)
  case (skip d i f)
  then show ?thesis using get_module_result[OF skip(1)] by (simp add: getvar_def)
next
  case (push d fn fake e1 p e2)
  have "modules e2 (module_name_of im) \<noteq> None" using push(6) by (rule getvar_loaded)
  then show ?thesis by (simp add: push(8) getvar_setvar)
qed

lemma patch_enter_mocks_connect:
  assumes "patch_enter extra args e = (Inr s, e')"
  shows "\<exists>i f. getvar e' ''snowflake.connector'' ''connect'' = Some (PyMagicMock i f)"
  using assms
proof (cases rule: patch_enter_Inr)
  case (1 c wp e1)
  let ?ff = "[c \<mapsto> PyFsConnect (s_fs s), wp \<mapsto> PyFakesWritePandas]"
  let ?im = "''snowflake.connector.connect''"
  let ?rest = "''snowflake.connector.pandas_tools.write_pandas'' # targets_list extra"
  obtain r e2 where pt: "patch_target ?ff ?im [] e1 = (r, e2)"
    by (cases "patch_target ?ff ?im [] e1")
  with 1(5) obtain stk1 where r: "r = Inr stk1"
    by (cases r) (auto simp: std_targets_def)
  have "\<exists>i f. getvar e2 (module_name_of ?im) (fn_name_of ?im) = Some (PyMagicMock i f)"
    using pt r patch_target_Inr_mock by blast
  then obtain i f where "getvar e2 ''snowflake.connector'' ''connect'' = Some (PyMagicMock i f)"
    by (auto simp: module_name_of_def fn_name_of_def)
  moreover have "patch_loop ?ff ?rest stk1 e2 = (Inr (s_stack s), e')"
    using 1(5) pt r by (simp add: std_targets_def)
  ultimately show ?thesis by (rule patch_loop_keeps_mock[rotated])
qed

text \<open>
  Claim C3. A call of \<^verbatim>\<open>patch\<close> that finds a \<^verbatim>\<open>MagicMock\<close> in
  \<^verbatim>\<open>snowflake.connector.connect\<close> raises the assertion error of line 52 and leaves
  the whole state as it was; and that is what every call finds in the state an entered
  patch scope has produced.
\<close>

theorem patch_rejects_reentry:
  "(getvar e ''snowflake.connector'' ''connect'' = Some (PyMagicMock i f) \<longrightarrow>
      patch_enter extra_targets args e = (Inl (AssertionError AlreadyPatched), e)) \<and>
   (patch_enter extra_targets0 args0 e0 = (Inr s, e) \<longrightarrow>
      patch_enter extra_targets args e = (Inl (AssertionError AlreadyPatched), e))"
proof (intro conjI impI)
  assume "getvar e ''snowflake.connector'' ''connect'' = Some (PyMagicMock i f)"
  then show "patch_enter extra_targets args e = (Inl (AssertionError AlreadyPatched), e)"
    by (simp add: patch_enter_guard)
next
  assume "patch_enter extra_targets0 args0 e0 = (Inr s, e)"
  then obtain i f where "getvar e ''snowflake.connector'' ''connect'' = Some (PyMagicMock i f)"
    using patch_enter_mocks_connect by blast
  then show "patch_enter extra_targets args e = (Inl (AssertionError AlreadyPatched), e)"
    by (simp add: patch_enter_guard)
qed

theorem patch_rejects_reentry_witness:
  "getvar example_patched_env ''snowflake.connector'' ''connect'' =
     Some (PyMagicMock 11 (PyFsConnect 10)) \<and>
   patch_enter (Many [''jobs.sf_connect'']) example_args example_patched_env =
     (Inl (AssertionError AlreadyPatched), example_patched_env) \<and>
   fst (patch_enter (Many [''jobs.sf_connect'', ''app.connect'']) example_args example_env) =
     Inr example_session \<and>
   patch_enter (Single ''jobs.sf_connect'') example_args
     (snd (patch_enter (Many [''jobs.sf_connect'', ''app.connect'']) example_args example_env)) =
   (Inl (AssertionError AlreadyPatched),
    snd (patch_enter (Many [''jobs.sf_connect'', ''app.connect'']) example_args example_env))"
proof -
  let ?r = "patch_enter (Many [''jobs.sf_connect'', ''app.connect'']) example_args example_env"
  have g: "getvar example_patched_env ''snowflake.connector'' ''connect'' =
     Some (PyMagicMock 11 (PyFsConnect 10))"
    by (simp add: getvar_def example_patched_env_def)
  have a: "patch_enter (Many [''jobs.sf_connect'']) example_args example_patched_env =
     (Inl (AssertionError AlreadyPatched), example_patched_env)"
    using patch_rejects_reentry[where e = example_patched_env and i = 11
        and f = "PyFsConnect 10" and extra_targets = "Many [''jobs.sf_connect'']"
        and args = example_args] g
    by blast
  have ev: "?r = (Inr example_session, snd ?r)"
    using example_patch_enter by (simp add: prod_eq_iff)
  have b: "patch_enter (Single ''jobs.sf_connect'') example_args (snd ?r) =
     (Inl (AssertionError AlreadyPatched), snd ?r)"
    using patch_rejects_reentry[where e = "snd ?r"
        and extra_targets = "Single ''jobs.sf_connect''" and args = example_args
        and ?extra_targets0.0 = "Many [''jobs.sf_connect'', ''app.connect'']"
        and ?args0.0 = example_args and ?e0.0 = example_env and s = example_session] ev
    by blast
  from g a b example_patch_enter show ?thesis by blast
qed

subsection \<open>What a pass patches and what it passes over\<close>


lemma patch_loop_originals:
  assumes "patch_loop ff ims stk e = (Inr stk', e')"
    "\<forall>u\<in>set stk. \<not> is_MagicMock (u_original u) \<and> ff (u_original u) \<noteq> None"
  shows "\<forall>u\<in>set stk'. \<not> is_MagicMock (u_original u) \<and> ff (u_original u) \<noteq> None"
  using assms
proof (induction ims arbitrary: stk e)
  case Nil
  then show ?case by simp
next
  case (Cons im ims)
  obtain r e1 where pt: "patch_target ff im stk e = (r, e1)"
    by (cases "patch_target ff im stk e")
  with Cons.prems(1) obtain stk1 where r: "r = Inr stk1"
    by (cases r) auto
  have "\<forall>u\<in>set stk1. \<not> is_MagicMock (u_original u) \<and> ff (u_original u) \<noteq> None"
    using pt[unfolded r] Cons.prems(2)
    by (cases rule: patch_target_Inr_cases) auto
  moreover have "patch_loop ff ims stk1 e1 = (Inr stk', e')"
    using Cons.prems(1) pt r by simp
  ultimately show ?case by (rule Cons.IH[rotated])
qed



text \<open>
  Claim C7, amended. A target whose module resolves and whose variable holds a hashable
  value that is neither a \<^verbatim>\<open>MagicMock\<close> nor a key of \<^verbatim>\<open>fake_fns\<close> stops the
  pass with an assertion error (``no module var'' for a falsy value, the unmapped-target
  assertion otherwise) and installs nothing. Every entry of the stack of an entered
  scope replaced the original \<^verbatim>\<open>connect\<close> or the original \<^verbatim>\<open>write_pandas\<close>.
\<close>

theorem patch_rejects_unmapped_target:
  "(get_module (module_name_of im) e = (Inr d, e1) \<and> d (fn_name_of im) = Some fn \<and>
    \<not> is_MagicMock fn \<and> hashable fn \<and> fake_fns fn = None \<longrightarrow>
      patch_target fake_fns im stack e =
        (Inl (AssertionError (if truthy fn then NotOneOf im fn else NoModuleVar im)), e1) \<and>
      patch_loop fake_fns (im # ims) stack e =
        (Inl (AssertionError (if truthy fn then NotOneOf im fn else NoModuleVar im)), e1)) \<and>
   (patch_enter extra_targets args e0 = (Inr s, e') \<longrightarrow>
      (\<forall>u\<in>set (s_stack s).
         Some (u_original u) = getvar e0 ''snowflake.connector'' ''connect'' \<or>
         Some (u_original u) =
           getvar e0 ''snowflake.connector.pandas_tools'' ''write_pandas''))"
proof (intro conjI impI)
  assume a: "get_module (module_name_of im) e = (Inr d, e1) \<and> d (fn_name_of im) = Some fn \<and>
    \<not> is_MagicMock fn \<and> hashable fn \<and> fake_fns fn = None"
  then show pt: "patch_target fake_fns im stack e =
        (Inl (AssertionError (if truthy fn then NotOneOf im fn else NoModuleVar im)), e1)"
    by (simp add: patch_target_def)
  then show "patch_loop fake_fns (im # ims) stack e =
        (Inl (AssertionError (if truthy fn then NotOneOf im fn else NoModuleVar im)), e1)"
    by simp
next
  assume "patch_enter extra_targets args e0 = (Inr s, e')"
  then show "\<forall>u\<in>set (s_stack s).
         Some (u_original u) = getvar e0 ''snowflake.connector'' ''connect'' \<or>
         Some (u_original u) =
           getvar e0 ''snowflake.connector.pandas_tools'' ''write_pandas''"
  proof (cases rule: patch_enter_Inr)
    case (1 c wp e1)
    have "\<forall>u\<in>set (s_stack s). \<not> is_MagicMock (u_original u) \<and>
        [c \<mapsto> PyFsConnect (s_fs s), wp \<mapsto> PyFakesWritePandas] (u_original u) \<noteq> None"
      using patch_loop_originals[OF 1(5)] by simp
    then show ?thesis using 1(1,3) by (auto split: if_splits)
  qed
qed

theorem patch_rejects_unmapped_target_witness:
  "patch_target example_fake_fns ''jobs.retries'' [] example_env =
     (Inl (AssertionError (NotOneOf ''jobs.retries'' (PyStr ''3''))), example_env) \<and>
   fst (patch_enter (Many [''jobs.sf_connect'', ''app.connect'']) example_args example_env) =
     Inr example_session \<and>
   getvar example_env ''snowflake.connector'' ''connect'' = Some (PyFunc 1) \<and>
   getvar example_env ''snowflake.connector.pandas_tools'' ''write_pandas'' = Some (PyFunc 2) \<and>
   set (map u_original (s_stack example_session)) = {PyFunc 1, PyFunc 2}"
proof -
  let ?r = "patch_enter (Many [''jobs.sf_connect'', ''app.connect'']) example_args example_env"
  let ?d = "[''sf_connect'' \<mapsto> PyFunc 1, ''retries'' \<mapsto> PyStr ''3'',
            ''hosts'' \<mapsto> PyList [PyStr ''localhost'']]"
  have mn: "module_name_of ''jobs.retries'' = ''jobs''" "fn_name_of ''jobs.retries'' = ''retries''"
    by (simp_all add: module_name_of_def fn_name_of_def)
  have gm: "get_module ''jobs'' example_env = (Inr ?d, example_env)"
    by (simp add: get_module_def example_env_def)
  have ev: "?r = (Inr example_session, snd ?r)"
    using example_patch_enter by (simp add: prod_eq_iff)
  have g: "getvar example_env ''snowflake.connector'' ''connect'' = Some (PyFunc 1)"
    "getvar example_env ''snowflake.connector.pandas_tools'' ''write_pandas'' = Some (PyFunc 2)"
    by (simp_all add: getvar_def example_env_def)
  have st: "set (map u_original (s_stack example_session)) = {PyFunc 1, PyFunc 2}"
    by (auto simp: example_session_def)
  show ?thesis
    using patch_rejects_unmapped_target[where im = "''jobs.retries''" and e = example_env
        and d = ?d and ?e1.0 = example_env and fn = "PyStr ''3''"
        and fake_fns = example_fake_fns and stack = "[]" and ims = "[]"
        and extra_targets = "Many [''jobs.sf_connect'', ''app.connect'']"
        and args = example_args and ?e0.0 = example_env and s = example_session
        and e' = "snd ?r"]
      gm ev mn g st example_patch_enter
    by (simp add: example_fake_fns_def)
qed

text \<open>
  The claim as first stated fails: the extra target \<^verbatim>\<open>app.connect\<close> resolves, once
  \<^verbatim>\<open>app\<close> is imported during the pass, to the \<^verbatim>\<open>MagicMock\<close> already stored in
  \<^verbatim>\<open>snowflake.connector.connect\<close>, which is no key of \<^verbatim>\<open>fake_fns\<close>, and the
  pass succeeds, passing the target over. And the extra target \<^verbatim>\<open>jobs.hosts\<close>, a
  list, stops the pass with the \<^verbatim>\<open>TypeError\<close> of the dictionary lookup, not with
  an assertion error.
\<close>

theorem unmapped_target_counterexample:
  "fst (patch_enter (Single ''app.connect'') example_args example_env) =
     Inr \<lparr>s_stack =
        [\<lparr>u_module = ''snowflake.connector.pandas_tools'', u_name = ''write_pandas'',
            u_original = PyFunc 2\<rparr>,
         \<lparr>u_module = ''snowflake.connector'', u_name = ''connect'', u_original = PyFunc 1\<rparr>],
      s_fs = 10\<rparr> \<and>
   getvar (snd (patch_enter (Single ''app.connect'') example_args example_env))
     ''app'' ''connect'' = Some (PyMagicMock 11 (PyFsConnect 10)) \<and>
   example_fake_fns (PyMagicMock 11 (PyFsConnect 10)) = None \<and>
   getvar example_env ''jobs'' ''hosts'' = Some (PyList [PyStr ''localhost'']) \<and>
   example_fake_fns (PyList [PyStr ''localhost'']) = None \<and>
   fst (patch_enter (Single ''jobs.hosts'') example_args example_env) = Inl TypeError"
  by (simp add: patch_eval_defs example_fake_fns_def)

text \<open>
  Claim C2. With the extra target \<^verbatim>\<open>snowflake.connector.no_such_fn\<close> the loop
  patches the two standard targets and then fails on \<^verbatim>\<open>assert fn\<close>. The assertion
  error leaves the generator before the \<^verbatim>\<open>try\<close> statement is reached, so
  \<^verbatim>\<open>stack.close()\<close> does not run: both standard targets still hold their
  \<^verbatim>\<open>MagicMock\<close>, and the next call of \<^verbatim>\<open>patch\<close> is refused by the guard of
  line 52.
\<close>

theorem setup_failure_keeps_patches:
  "fst (patch_enter (Many [''snowflake.connector.no_such_fn'']) example_args example_env) =
     Inl (AssertionError (NoModuleVar ''snowflake.connector.no_such_fn'')) \<and>
   getvar example_env ''snowflake.connector'' ''connect'' = Some (PyFunc 1) \<and>
   getvar (snd (patch_enter (Many [''snowflake.connector.no_such_fn'']) example_args example_env))
     ''snowflake.connector'' ''connect'' = Some (PyMagicMock 11 (PyFsConnect 10)) \<and>
   getvar example_env ''snowflake.connector.pandas_tools'' ''write_pandas'' = Some (PyFunc 2) \<and>
   getvar (snd (patch_enter (Many [''snowflake.connector.no_such_fn'']) example_args example_env))
     ''snowflake.connector.pandas_tools'' ''write_pandas'' =
       Some (PyMagicMock 12 PyFakesWritePandas) \<and>
   fst (patch_enter (Many []) example_args
     (snd (patch_enter (Many [''snowflake.connector.no_such_fn'']) example_args example_env))) =
       Inl (AssertionError AlreadyPatched)"
proof -
  let ?r = "patch_enter (Many [''snowflake.connector.no_such_fn'']) example_args example_env"
  have a: "fst ?r = Inl (AssertionError (NoModuleVar ''snowflake.connector.no_such_fn''))"
    by (simp add: patch_eval_defs)
  have b: "getvar (snd ?r) ''snowflake.connector'' ''connect'' =
      Some (PyMagicMock 11 (PyFsConnect 10))"
    by (simp add: patch_eval_defs)
  have c: "getvar (snd ?r) ''snowflake.connector.pandas_tools'' ''write_pandas'' =
      Some (PyMagicMock 12 PyFakesWritePandas)"
    by (simp add: patch_eval_defs)
  have d: "getvar example_env ''snowflake.connector'' ''connect'' = Some (PyFunc 1)"
    "getvar example_env ''snowflake.connector.pandas_tools'' ''write_pandas'' = Some (PyFunc 2)"
    by (simp_all add: getvar_def example_env_def)
  have e: "fst (patch_enter (Many []) example_args (snd ?r)) =
      Inl (AssertionError AlreadyPatched)"
    using patch_enter_guard[OF b] by simp
  from a b c d e show ?thesis by simp
qed

section \<open>Properties of the server scope\<close>

lemma tick_fields [simp]:
  "clock (tick w) = Suc (clock w)" "thread_alive (tick w) = thread_alive w"
  "server_started (tick w) = server_started w" "os_port (tick w) = os_port w"
  "should_exit (tick w) = should_exit w" "trace (tick w) = trace w"
  by (simp_all add: tick_def)

lemma emit_fields [simp]:
  "clock (emit evs w) = clock w" "thread_alive (emit evs w) = thread_alive w"
  "server_started (emit evs w) = server_started w" "os_port (emit evs w) = os_port w"
  "should_exit (emit evs w) = should_exit w" "trace (emit evs w) = trace w @ evs"
  by (simp_all add: emit_def)

lemma wait_started_preserves:
  assumes "wait_started w = Some w'"
  shows "trace w' = trace w \<and> thread_alive w' = thread_alive w \<and>
         server_started w' = server_started w \<and> os_port w' = os_port w \<and>
         should_exit w' = should_exit w \<and> clock w < clock w'"
  using assms
proof (induct rule: wait_started.raw_induct[rotated, consumes 1])
  case (1 f w w')
  show ?case
  proof (cases "thread_alive w (clock w)")
    case False
    with 1(2) show ?thesis by auto
  next
    case True
    show ?thesis
    proof (cases "server_started w (Suc (clock w))")
      case True
      with 1(2) \<open>thread_alive w (clock w)\<close> show ?thesis by auto
    next
      case False
      with 1(2) True have "f (tick (tick (tick w))) = Some w'" by simp
      from 1(1)[OF this] show ?thesis by simp
    qed
  qed
qed

lemma wait_started_terminates:
  assumes "\<forall>t\<ge>k. \<not> thread_alive w t"
  shows "\<exists>w'. wait_started w = Some w'"
  using assms
proof (induction "k - clock w" arbitrary: w rule: less_induct)
  case less
  show ?case
  proof (cases "thread_alive w (clock w) \<and> \<not> server_started w (Suc (clock w))")
    case False
    then show ?thesis by (subst wait_started.simps) auto
  next
    case True
    then have lt: "clock w < k" using less.prems by (meson not_le)
    let ?w = "tick (tick (tick w))"
    have "k - clock ?w < k - clock w" using lt by simp
    moreover have "\<forall>t\<ge>k. \<not> thread_alive ?w t" using less.prems by simp
    ultimately obtain w' where "wait_started ?w = Some w'"
      using less.hyps by blast
    then show ?thesis using True by (subst wait_started.simps) simp
  qed
qed

lemma thread_join_result:
  assumes "thread_join w = Some w'"
  shows "w' = emit [ThreadJoined] (w\<lparr>clock := clock w'\<rparr>) \<and> clock w \<le> clock w' \<and>
         \<not> thread_alive w (clock w') \<and>
         (\<forall>t. clock w \<le> t \<and> t < clock w' \<longrightarrow> thread_alive w t)"
  using assms
proof (induct rule: thread_join.raw_induct[rotated, consumes 1])
  case (1 f w w')
  show ?case
  proof (cases "thread_alive w (clock w)")
    case False
    with 1(2) show ?thesis by (auto simp: emit_def)
  next
    case True
    with 1(2) have "f (tick w) = Some w'" by simp
    from 1(1)[OF this] have ih: "w' = emit [ThreadJoined] (tick w\<lparr>clock := clock w'\<rparr>)"
      "Suc (clock w) \<le> clock w'" "\<not> thread_alive w (clock w')"
      "\<forall>t. Suc (clock w) \<le> t \<and> t < clock w' \<longrightarrow> thread_alive w t"
      by simp_all
    have "\<forall>t. clock w \<le> t \<and> t < clock w' \<longrightarrow> thread_alive w t"
    proof (intro allI impI)
      fix t assume "clock w \<le> t \<and> t < clock w'"
      then show "thread_alive w t" using True ih(4) by (cases "t = clock w") auto
    qed
    moreover have "w' = emit [ThreadJoined] (w\<lparr>clock := clock w'\<rparr>)"
      using ih(1) by (simp add: tick_def)
    ultimately show ?thesis using ih(2,3) by simp
  qed
qed

lemma thread_join_terminates:
  assumes "k \<ge> clock w" "\<not> thread_alive w k"
  shows "\<exists>w'. thread_join w = Some w'"
  using assms
proof (induction "k - clock w" arbitrary: w rule: less_induct)
  case less
  show ?case
  proof (cases "thread_alive w (clock w)")
    case False
    then show ?thesis by (subst thread_join.simps) simp
  next
    case True
    then have lt: "clock w < k" using less.prems by (metis le_neq_implies_less)
    have "k - clock (tick w) < k - clock w" using lt by simp
    moreover have "k \<ge> clock (tick w)" using lt by simp
    moreover have "\<not> thread_alive (tick w) k" using less.prems by simp
    ultimately obtain w' where "thread_join (tick w) = Some w'"
      using less.hyps by blast
    then show ?thesis using True by (subst thread_join.simps) simp
  qed
qed

lemma choose_port_fields:
  assumes "choose_port port w = (r, w1)"
  shows "clock w1 = clock w" "thread_alive w1 = thread_alive w"
    "server_started w1 = server_started w" "os_port w1 = os_port w"
    "should_exit w1 = should_exit w"
  using assms
  by (auto simp: choose_port_def find_port_def split: option.splits sum.splits if_splits)

lemma choose_port_None_Inr:
  assumes "choose_port None w = (Inr p, w1)"
  shows "os_port w = Inr p"
    "trace w1 = trace w @ [SocketOpen, SocketBind ''127.0.0.1'' 0, SocketGetsockname p, SocketClose]"
  using assms by (auto simp: choose_port_def find_port_def split: sum.splits)

lemma choose_port_zero: "choose_port (Some 0) w = choose_port None w"
  by (simp add: choose_port_def)

lemma server_enter_Inr:
  assumes "server_enter port sp w = Some (Inr cp, w')"
  obtains p w1 where "choose_port port w = (Inr p, w1)" "p \<noteq> 0"
    "cp = connection_parameters p sp" "trace w' = trace w1 @ [ThreadStart p]"
proof -
  obtain r w1 where cp: "choose_port port w = (r, w1)"
    by (cases "choose_port port w")
  with assms obtain p where r: "r = Inr p"
    by (cases r) (auto simp: server_enter_def)
  from assms cp r have p0: "p \<noteq> 0"
    by (auto simp: server_enter_def split: if_splits)
  from assms cp r p0 obtain w2 where
    w2: "wait_started (emit [ThreadStart p] w1) = Some w2"
    by (cases "wait_started (emit [ThreadStart p] w1)") (auto simp: server_enter_def)
  from assms cp r p0 w2 have res: "cp = connection_parameters p sp" "w' = tick w2"
    by (auto simp: server_enter_def split: if_splits)
  have "trace w2 = trace w1 @ [ThreadStart p]"
    using wait_started_preserves[OF w2] by simp
  with res have "trace w' = trace w1 @ [ThreadStart p]" by simp
  with cp r p0 res(1) show thesis by (intro that) auto
qed

text \<open>
  Claim C4. If the server is never seen started and the thread is dead from some moment
  on, \<^verbatim>\<open>server\<close> returns to its caller with an exception and yields nothing; when
  a port was chosen and the thread started, the exception is the
  \<^verbatim>\<open>RuntimeError\<close> of line 129.
\<close>

theorem server_startup_failure:
  assumes "\<forall>t. \<not> server_started w t" and "\<forall>t\<ge>k. \<not> thread_alive w t"
  shows "(\<exists>err w'. server_enter port session_parameters w = Some (Inl err, w')) \<and>
         (\<forall>p w1. choose_port port w = (Inr p, w1) \<and> p \<noteq> 0 \<longrightarrow>
            (\<exists>w'. server_enter port session_parameters w =
                     Some (Inl (RuntimeError ''Failed to start server''), w')))"
proof -
  have main: "\<exists>w'. server_enter port session_parameters w =
      Some (Inl (RuntimeError ''Failed to start server''), w')"
    if cp: "choose_port port w = (Inr p, w1)" and p0: "p \<noteq> 0" for p w1
  proof -
    let ?w = "emit [ThreadStart p] w1"
    have "\<forall>t\<ge>k. \<not> thread_alive ?w t"
      using assms(2) choose_port_fields(2)[OF cp] by simp
    then obtain w2 where w2: "wait_started ?w = Some w2"
      using wait_started_terminates by blast
    have "server_started w2 = server_started w"
      using wait_started_preserves[OF w2] choose_port_fields(3)[OF cp] by simp
    then have "\<not> server_started w2 (clock w2)" using assms(1) by simp
    then show ?thesis using cp p0 w2 by (simp add: server_enter_def)
  qed
  obtain r w1 where cp: "choose_port port w = (r, w1)"
    by (cases "choose_port port w")
  have "\<exists>err w'. server_enter port session_parameters w = Some (Inl err, w')"
  proof (cases r)
    case (Inl err)
    with cp show ?thesis by (simp add: server_enter_def)
  next
    case (Inr p)
    show ?thesis
    proof (cases "p = 0")
      case True
      with cp Inr show ?thesis by (simp add: server_enter_def)
    next
      case False
      with main cp Inr show ?thesis by blast
    qed
  qed
  with main show ?thesis by blast
qed

theorem server_startup_failure_witness:
  "choose_port None example_failing_world =
     (Inr 49152, snd (choose_port None example_failing_world)) \<and>
   (\<exists>w'. server_enter None None example_failing_world =
      Some (Inl (RuntimeError ''Failed to start server''), w'))"
proof -
  have a: "\<forall>t. \<not> server_started example_failing_world t"
    by (simp add: example_failing_world_def)
  have b: "\<forall>t\<ge>5. \<not> thread_alive example_failing_world t"
    by (simp add: example_failing_world_def)
  have c: "choose_port None example_failing_world =
     (Inr 49152, snd (choose_port None example_failing_world))"
    by (simp add: choose_port_def find_port_def example_failing_world_def)
  show ?thesis
    using server_startup_failure[OF a b, of None None] c by auto
qed

text \<open>
  Claim C5. Leaving a server scope, after a block that returned or one that raised:
  if the exit returns, then \<^verbatim>\<open>should_exit\<close> was set first and the thread joined
  after, the moment of return is the first one from the exit on at which the thread is
  dead, and the block's exception, if any, is passed on unchanged. The exit returns if
  the thread dies at some moment, and never returns if it does not.
\<close>

theorem server_exit_signals_then_joins:
  "(server_exit outcome w = Some (r, w') \<longrightarrow>
      r = outcome \<and> should_exit w' \<and>
      trace w' = trace w @ [SetShouldExit, ThreadJoined] \<and>
      clock w \<le> clock w' \<and> \<not> thread_alive w (clock w') \<and>
      (\<forall>t. clock w \<le> t \<and> t < clock w' \<longrightarrow> thread_alive w t)) \<and>
   ((\<exists>t\<ge>clock w. \<not> thread_alive w t) \<longrightarrow> server_exit outcome w \<noteq> None) \<and>
   ((\<forall>t\<ge>clock w. thread_alive w t) \<longrightarrow> server_exit outcome w = None)"
proof -
  let ?w = "emit [SetShouldExit] (w\<lparr>should_exit := True\<rparr>)"
  have f: "clock ?w = clock w" "thread_alive ?w = thread_alive w"
    "trace ?w = trace w @ [SetShouldExit]" "should_exit ?w"
    by simp_all
  have a: "r = outcome \<and> should_exit w' \<and>
      trace w' = trace w @ [SetShouldExit, ThreadJoined] \<and>
      clock w \<le> clock w' \<and> \<not> thread_alive w (clock w') \<and>
      (\<forall>t. clock w \<le> t \<and> t < clock w' \<longrightarrow> thread_alive w t)"
    if ex: "server_exit outcome w = Some (r, w')" for r w'
  proof -
    from ex have j: "thread_join ?w = Some w'" and r: "r = outcome"
      by (auto simp: server_exit_def split: option.splits)
    note jr = thread_join_result[OF j]
    from jr have "w' = emit [ThreadJoined] (?w\<lparr>clock := clock w'\<rparr>)" by blast
    then have "should_exit w' = should_exit (emit [ThreadJoined] (?w\<lparr>clock := clock w'\<rparr>))"
      "trace w' = trace (emit [ThreadJoined] (?w\<lparr>clock := clock w'\<rparr>))"
      by simp_all
    then have "should_exit w'" "trace w' = trace w @ [SetShouldExit, ThreadJoined]"
      by (simp_all add: emit_def)
    with jr r show ?thesis unfolding f by blast
  qed
  have b: "server_exit outcome w \<noteq> None" if "\<exists>t\<ge>clock w. \<not> thread_alive w t"
  proof -
    from that obtain t where "clock ?w \<le> t" "\<not> thread_alive ?w t" by auto
    then obtain w1 where "thread_join ?w = Some w1"
      using thread_join_terminates by blast
    then show ?thesis by (simp add: server_exit_def)
  qed
  have c: "server_exit outcome w = None" if al: "\<forall>t\<ge>clock w. thread_alive w t"
  proof (cases "server_exit outcome w")
    case None
    then show ?thesis .
  next
    case (Some rw)
    then have "server_exit outcome w = Some (fst rw, snd rw)" by simp
    from a[OF this] al show ?thesis by blast
  qed
  from a b c show ?thesis by blast
qed

theorem server_exit_signals_then_joins_witness:
  "clock example_ready_world \<le> 9 \<and> \<not> thread_alive example_ready_world 9 \<and>
   server_exit (Some (RuntimeError ''caller'')) example_ready_world =
     Some (Some (RuntimeError ''caller''), example_stopped_world) \<and>
   should_exit example_stopped_world \<and>
   trace example_stopped_world =
     trace example_ready_world @ [SetShouldExit, ThreadJoined] \<and>
   \<not> thread_alive example_ready_world (clock example_stopped_world) \<and>
   server_exit None example_ready_world \<noteq> None \<and>
   server_exit None example_hung_world = None"
proof -
  have h: "clock example_ready_world \<le> 9" "\<not> thread_alive example_ready_world 9"
    by (simp_all add: example_ready_world_def)
  have ev: "server_exit (Some (RuntimeError ''caller'')) example_ready_world =
     Some (Some (RuntimeError ''caller''), example_stopped_world)"
    by (simp add: server_exit_def thread_join.simps tick_def emit_def
        example_ready_world_def example_stopped_world_def)
  have a: "should_exit example_stopped_world \<and>
     trace example_stopped_world = trace example_ready_world @ [SetShouldExit, ThreadJoined] \<and>
     \<not> thread_alive example_ready_world (clock example_stopped_world)"
    using server_exit_signals_then_joins[of "Some (RuntimeError ''caller'')"
        example_ready_world "Some (RuntimeError ''caller'')" example_stopped_world] ev
    by blast
  have b: "server_exit None example_ready_world \<noteq> None"
    using server_exit_signals_then_joins[of None example_ready_world] h by blast
  have "\<forall>t\<ge>clock example_hung_world. thread_alive example_hung_world t"
    by (simp add: example_hung_world_def)
  then have c: "server_exit None example_hung_world = None"
    using server_exit_signals_then_joins[of None example_hung_world] by blast
  from h ev a b c show ?thesis by blast
qed

lemma example_server_enter:
  "server_enter None sp example_world =
     Some (Inr (connection_parameters 49152 sp), example_ready_world)"
  by (simp add: server_enter_def choose_port_def find_port_def wait_started.simps tick_def
      emit_def example_world_def example_ready_world_def)

text \<open>
  Claim C8. The yielded \<^verbatim>\<open>session_parameters\<close> give every key of the caller's
  dictionary the caller's value and every other key the value of the default
  dictionary, whose only entry disables the out-of-band telemetry; without a caller's
  dictionary they are the default dictionary.
\<close>

theorem server_session_parameters:
  "(server_enter port (Some sp) w = Some (Inr cp, w') \<longrightarrow>
      (\<forall>k v. sp k = Some v \<longrightarrow> cp_session_parameters cp k = Some v) \<and>
      (\<forall>k. sp k = None \<longrightarrow>
         cp_session_parameters cp k =
           [''CLIENT_OUT_OF_BAND_TELEMETRY_ENABLED'' \<mapsto> PVBool False] k)) \<and>
   (server_enter port None w = Some (Inr cp, w') \<longrightarrow>
      cp_session_parameters cp = [''CLIENT_OUT_OF_BAND_TELEMETRY_ENABLED'' \<mapsto> PVBool False])"
proof (intro conjI impI allI)
  fix k v
  assume "server_enter port (Some sp) w = Some (Inr cp, w')" and "sp k = Some v"
  then show "cp_session_parameters cp k = Some v"
    by (elim server_enter_Inr) (simp add: connection_parameters_def)
next
  fix k
  assume "server_enter port (Some sp) w = Some (Inr cp, w')" and "sp k = None"
  then show "cp_session_parameters cp k =
      [''CLIENT_OUT_OF_BAND_TELEMETRY_ENABLED'' \<mapsto> PVBool False] k"
    by (elim server_enter_Inr)
       (simp add: connection_parameters_def default_session_parameters_def map_add_def)
next
  assume "server_enter port None w = Some (Inr cp, w')"
  then show "cp_session_parameters cp = [''CLIENT_OUT_OF_BAND_TELEMETRY_ENABLED'' \<mapsto> PVBool False]"
    by (elim server_enter_Inr)
       (simp add: connection_parameters_def default_session_parameters_def)
qed

theorem server_session_parameters_witness:
  "server_enter None (Some example_session_parameters) example_world =
     Some (Inr (connection_parameters 49152 (Some example_session_parameters)),
           example_ready_world) \<and>
   cp_session_parameters (connection_parameters 49152 (Some example_session_parameters))
     ''CLIENT_OUT_OF_BAND_TELEMETRY_ENABLED'' = Some (PVBool True) \<and>
   cp_session_parameters (connection_parameters 49152 (Some example_session_parameters))
     ''QUERY_TAG'' = Some (PVStr ''t'') \<and>
   server_enter None (Some [''QUERY_TAG'' \<mapsto> PVStr ''t'']) example_world =
     Some (Inr (connection_parameters 49152 (Some [''QUERY_TAG'' \<mapsto> PVStr ''t''])),
           example_ready_world) \<and>
   cp_session_parameters (connection_parameters 49152 (Some [''QUERY_TAG'' \<mapsto> PVStr ''t'']))
     ''CLIENT_OUT_OF_BAND_TELEMETRY_ENABLED'' = Some (PVBool False) \<and>
   cp_session_parameters (connection_parameters 49152 None) =
     [''CLIENT_OUT_OF_BAND_TELEMETRY_ENABLED'' \<mapsto> PVBool False]"
proof -
  let ?sp = "[''QUERY_TAG'' \<mapsto> PVStr ''t'']"
  have k: "example_session_parameters ''CLIENT_OUT_OF_BAND_TELEMETRY_ENABLED'' = Some (PVBool True)"
    "example_session_parameters ''QUERY_TAG'' = Some (PVStr ''t'')"
    "?sp ''CLIENT_OUT_OF_BAND_TELEMETRY_ENABLED'' = None"
    by (simp_all add: example_session_parameters_def)
  note a = server_session_parameters[where port = None and sp = example_session_parameters
      and w = example_world and w' = example_ready_world
      and cp = "connection_parameters 49152 (Some example_session_parameters)"]
  note b = server_session_parameters[where port = None and sp = ?sp
      and w = example_world and w' = example_ready_world
      and cp = "connection_parameters 49152 (Some ?sp)"]
  note c = server_session_parameters[where port = None and sp = ?sp
      and w = example_world and w' = example_ready_world
      and cp = "connection_parameters 49152 None"]
  have 1: "cp_session_parameters (connection_parameters 49152 (Some example_session_parameters))
     ''CLIENT_OUT_OF_BAND_TELEMETRY_ENABLED'' = Some (PVBool True)"
    using a k(1) example_server_enter by blast
  have 2: "cp_session_parameters (connection_parameters 49152 (Some example_session_parameters))
     ''QUERY_TAG'' = Some (PVStr ''t'')"
    using a k(2) example_server_enter by blast
  have 3: "cp_session_parameters (connection_parameters 49152 (Some ?sp))
     ''CLIENT_OUT_OF_BAND_TELEMETRY_ENABLED'' = Some (PVBool False)"
    using b k(3) example_server_enter by simp
  have 4: "cp_session_parameters (connection_parameters 49152 None) =
     [''CLIENT_OUT_OF_BAND_TELEMETRY_ENABLED'' \<mapsto> PVBool False]"
    using c example_server_enter by blast
  from 1 2 3 4 example_server_enter show ?thesis by simp
qed




lemma choose_port_trace:
  assumes "choose_port port w = (r, w1)"
  shows "\<exists>evs. trace w1 = trace w @ evs \<and> (\<forall>p. ThreadStart p \<notin> set evs)"
  using assms
  by (auto simp: choose_port_def find_port_def split: option.splits sum.splits if_splits)

lemma server_enter_trace:
  assumes "server_enter port sp w = Some (r, w')"
  shows "\<exists>evs. trace w' = trace w @ evs \<and> ThreadStart 0 \<notin> set evs"
proof -
  obtain r1 w1 where cp: "choose_port port w = (r1, w1)"
    by (cases "choose_port port w")
  then obtain evs where evs: "trace w1 = trace w @ evs" "\<forall>p. ThreadStart p \<notin> set evs"
    using choose_port_trace by blast
  show ?thesis
  proof (cases r1)
    case (Inl err)
    with assms cp have "w' = w1" by (simp add: server_enter_def)
    with evs show ?thesis by blast
  next
    case (Inr p)
    show ?thesis
    proof (cases "p = 0")
      case True
      with assms cp Inr have "w' = w1" by (simp add: server_enter_def)
      with evs show ?thesis by blast
    next
      case False
      with assms cp Inr obtain w2 where
        w2: "wait_started (emit [ThreadStart p] w1) = Some w2" and w': "w' = tick w2"
        by (cases "wait_started (emit [ThreadStart p] w1)")
           (auto simp: server_enter_def split: if_splits)
      have "trace w' = trace w @ (evs @ [ThreadStart p])"
        using wait_started_preserves[OF w2] w' evs(1) by simp
      moreover have "ThreadStart 0 \<notin> set (evs @ [ThreadStart p])"
        using evs(2) False by simp
      ultimately show ?thesis by blast
    qed
  qed
qed

text \<open>
  Claim C10. \<^verbatim>\<open>server(port=0)\<close> behaves exactly as \<^verbatim>\<open>server()\<close>: the port is
  the one assigned to the throwaway socket, the yielded port is not 0, and however the
  call ends no server thread was started on port 0.
\<close>

theorem server_port_zero:
  "server_enter (Some 0) session_parameters w = server_enter None session_parameters w \<and>
   (server_enter (Some 0) session_parameters w = Some (Inr cp, w') \<longrightarrow>
      cp_port cp \<noteq> 0 \<and> os_port w = Inr (cp_port cp) \<and>
      trace w' = trace w @
        [SocketOpen, SocketBind ''127.0.0.1'' 0, SocketGetsockname (cp_port cp),
         SocketClose, ThreadStart (cp_port cp)]) \<and>
   (server_enter (Some 0) session_parameters w = Some (r, w') \<longrightarrow>
      (\<exists>evs. trace w' = trace w @ evs \<and> ThreadStart 0 \<notin> set evs))"
proof (intro conjI impI)
  show eq: "server_enter (Some 0) session_parameters w = server_enter None session_parameters w"
    by (simp add: server_enter_def choose_port_zero)
  {
    assume "server_enter (Some 0) session_parameters w = Some (Inr cp, w')"
    then have "server_enter None session_parameters w = Some (Inr cp, w')"
      using eq by simp
    then have "cp_port cp \<noteq> 0 \<and> os_port w = Inr (cp_port cp) \<and>
      trace w' = trace w @
        [SocketOpen, SocketBind ''127.0.0.1'' 0, SocketGetsockname (cp_port cp),
         SocketClose, ThreadStart (cp_port cp)]"
    proof (cases rule: server_enter_Inr)
      case (1 p w1)
      have "cp_port cp = p" using 1(3) by (simp add: connection_parameters_def)
      then show ?thesis using choose_port_None_Inr[OF 1(1)] 1(2,4) by simp
    qed
  }
  then show
    "server_enter (Some 0) session_parameters w = Some (Inr cp, w') \<Longrightarrow> cp_port cp \<noteq> 0"
    "server_enter (Some 0) session_parameters w = Some (Inr cp, w') \<Longrightarrow>
       os_port w = Inr (cp_port cp)"
    "server_enter (Some 0) session_parameters w = Some (Inr cp, w') \<Longrightarrow>
       trace w' = trace w @
        [SocketOpen, SocketBind ''127.0.0.1'' 0, SocketGetsockname (cp_port cp),
         SocketClose, ThreadStart (cp_port cp)]"
    by blast+
  show "server_enter (Some 0) session_parameters w = Some (r, w') \<Longrightarrow>
      \<exists>evs. trace w' = trace w @ evs \<and> ThreadStart 0 \<notin> set evs"
    by (rule server_enter_trace)
qed

theorem server_port_zero_witness:
  "server_enter (Some 0) None example_world =
     Some (Inr (connection_parameters 49152 None), example_ready_world) \<and>
   cp_port (connection_parameters 49152 None) \<noteq> 0 \<and>
   os_port example_world = Inr (cp_port (connection_parameters 49152 None)) \<and>
   (\<exists>evs. trace example_ready_world = trace example_world @ evs \<and> ThreadStart 0 \<notin> set evs)"
proof -
  note z = server_port_zero[where session_parameters = None and w = example_world
      and cp = "connection_parameters 49152 None" and w' = example_ready_world
      and r = "Inr (connection_parameters 49152 None)"]
  have ev: "server_enter (Some 0) None example_world =
     Some (Inr (connection_parameters 49152 None), example_ready_world)"
    using z example_server_enter by simp
  with z show ?thesis by blast
qed

end
